theory Spec2Isabelle
  imports Complex_Main "HOL-Library.AList"
begin

section \<open>Patient Management System: the data model\<close>

text \<open>
  A shallow embedding of \<^verbatim>\<open>HTTP_method/project.py\<close>. Python's \<^verbatim>\<open>float\<close> is read as
  a real number with exact arithmetic and \<^verbatim>\<open>int\<close> as an unbounded integer. A stored
  patient is the dict that \<^verbatim>\<open>add_patient\<close> builds, with its eight keys; each key holds
  a value of the type the pydantic model declares for it. The collection is the dict
  that \<^verbatim>\<open>json.load\<close> returns: an association list in insertion order, whose keys
  are pairwise distinct.
\<close>

datatype error = HTTPException nat string | ZeroDivisionError | ValueError

record patient_data =
  name :: string
  city :: string
  age :: int
  gender :: string
  height :: real
  weight :: real
  bmi :: real
  verdict :: string

type_synonym collection = "(string \<times> patient_data) list"

text \<open>
  The request model \<^verbatim>\<open>Patient\<close>: six required fields, and the two optional fields
  \<^verbatim>\<open>bmi\<close> and \<^verbatim>\<open>verdict\<close>, which default to \<^verbatim>\<open>None\<close>.
\<close>

record Patient =
  in_name :: string
  in_city :: string
  in_age :: int
  in_gender :: string
  in_height :: real
  in_weight :: real
  in_bmi :: "real option"
  in_verdict :: "string option"

text \<open>
  The request model \<^verbatim>\<open>PatientUpdate\<close>. A field is \<open>None\<close> when the request leaves it
  unset, so that \<^verbatim>\<open>dict(exclude_unset=True)\<close> holds exactly the fields that are
  \<open>Some\<close>.
\<close>

record PatientUpdate =
  upd_name :: "string option"
  upd_city :: "string option"
  upd_age :: "int option"
  upd_gender :: "string option"
  upd_height :: "real option"
  upd_weight :: "real option"

text \<open>
  The file \<^verbatim>\<open>patients.json\<close>: absent, not parseable as JSON, or holding a collection.
\<close>

datatype json_file = Missing | Malformed | Content collection

section \<open>Python built-ins\<close>

text \<open>
  \<^verbatim>\<open>round(x, n)\<close> on exact values: the nearest multiple of \<open>10\<^sup>-\<^sup>n\<close>, a tie going to
  the even one.
\<close>

definition py_round :: "real \<Rightarrow> nat \<Rightarrow> real" where
  "py_round x n =
     (let s = x * 10 ^ n; f = \<lfloor>s\<rfloor>; d = s - of_int f
      in of_int (if d < 1 / 2 then f
                 else if 1 / 2 < d then f + 1
                 else if even f then f else f + 1) / 10 ^ n)"

text \<open>\<^verbatim>\<open>a / b\<close> on floats raises \<^verbatim>\<open>ZeroDivisionError\<close> when the divisor is zero.\<close>

definition py_truediv :: "real \<Rightarrow> real \<Rightarrow> error + real" where
  "py_truediv a b = (if b = 0 then Inl ZeroDivisionError else Inr (a / b))"

text \<open>\<^verbatim>\<open>min\<close> and \<^verbatim>\<open>max\<close> of a list raise \<^verbatim>\<open>ValueError\<close> on the empty list.\<close>

fun py_min :: "('a :: linorder) list \<Rightarrow> error + 'a" where
  "py_min [] = Inl ValueError"
| "py_min (x # xs) = Inr (fold min xs x)"

fun py_max :: "('a :: linorder) list \<Rightarrow> error + 'a" where
  "py_max [] = Inl ValueError"
| "py_max (x # xs) = Inr (fold max xs x)"

text \<open>
  \<^verbatim>\<open>int(s)\<close> on a decimal string: an optional sign and then one or more ASCII digits.
  Any other string is a \<^verbatim>\<open>ValueError\<close> here (Python also reads surrounding white
  space and single underscores between digits; no identifier of the form the service
  generates has either).
\<close>

definition is_digit :: "char \<Rightarrow> bool" where
  "is_digit c = (48 \<le> (of_char c :: nat) \<and> (of_char c :: nat) \<le> 57)"

definition digit_val :: "char \<Rightarrow> nat" where
  "digit_val c = of_char c - 48"

definition digits_val :: "string \<Rightarrow> nat" where
  "digits_val s = foldl (\<lambda>a c. 10 * a + digit_val c) 0 s"

definition py_int_digits :: "string \<Rightarrow> error + nat" where
  "py_int_digits s =
     (if s \<noteq> [] \<and> list_all is_digit s then Inr (digits_val s) else Inl ValueError)"

definition py_int :: "string \<Rightarrow> error + int" where
  "py_int s =
     (case s of
        [] \<Rightarrow> Inl ValueError
      | c # r \<Rightarrow>
          if c = CHR ''-'' then
            (case py_int_digits r of Inl e \<Rightarrow> Inl e | Inr n \<Rightarrow> Inr (- int n))
          else if c = CHR ''+'' then
            (case py_int_digits r of Inl e \<Rightarrow> Inl e | Inr n \<Rightarrow> Inr (int n))
          else
            (case py_int_digits s of Inl e \<Rightarrow> Inl e | Inr n \<Rightarrow> Inr (int n)))"

text \<open>\<^verbatim>\<open>str(i)\<close> of an integer: its decimal numeral, with a minus sign when negative.\<close>

definition digit_char :: "nat \<Rightarrow> char" where
  "digit_char d = char_of (48 + d)"

fun str_nat :: "nat \<Rightarrow> string" where
  "str_nat n = (if n < 10 then [digit_char n] else str_nat (n div 10) @ [digit_char (n mod 10)])"

declare str_nat.simps [simp del]

definition py_str :: "int \<Rightarrow> string" where
  "py_str i = (if i < 0 then CHR ''-'' # str_nat (nat (- i)) else str_nat (nat i))"

text \<open>
  \<^verbatim>\<open>s.zfill(width)\<close>: zeros on the left up to \<open>width\<close> characters, after a leading
  sign if there is one; a string that is long enough is returned as it is.
\<close>

definition zfill :: "nat \<Rightarrow> string \<Rightarrow> string" where
  "zfill width s =
     (if width \<le> length s then s
      else (case s of
              [] \<Rightarrow> replicate width CHR ''0''
            | c # r \<Rightarrow>
                if c = CHR ''+'' \<or> c = CHR ''-''
                then c # replicate (width - length s) CHR ''0'' @ r
                else replicate (width - length s) CHR ''0'' @ s))"



section \<open>Storage\<close>

text \<open>
  \<^verbatim>\<open>load_data\<close> returns the empty dict when the file does not exist and raises the
  HTTP error 500 when it is not JSON. \<^verbatim>\<open>save_data\<close> rewrites the whole file; the
  write itself is taken to succeed.
\<close>

definition load_data :: "json_file \<Rightarrow> error + collection" where
  "load_data f =
     (case f of
        Missing \<Rightarrow> Inr []
      | Malformed \<Rightarrow> Inl (HTTPException 500 ''Error reading patient data'')
      | Content data \<Rightarrow> Inr data)"

definition save_data :: "collection \<Rightarrow> json_file \<Rightarrow> json_file" where
  "save_data data f = Content data"

section \<open>Derived fields and identifiers\<close>

definition calculate_bmi :: "real \<Rightarrow> real \<Rightarrow> error + real" where
  "calculate_bmi h w =
     (case py_truediv w (h ^ 2) of Inl e \<Rightarrow> Inl e | Inr q \<Rightarrow> Inr (py_round q 2))"

definition get_bmi_verdict :: "real \<Rightarrow> string" where
  "get_bmi_verdict b =
     (if b < 18.5 then ''Underweight''
      else if 18.5 \<le> b \<and> b < 25 then ''Normal''
      else if 25 \<le> b \<and> b < 30 then ''Overweight''
      else ''Obese'')"

text \<open>
  The list comprehension \<^verbatim>\<open>[int(pid[1:]) for pid in data.keys()]\<close>: the first key
  whose tail is not a numeral raises.
\<close>

fun id_numbers :: "string list \<Rightarrow> error + int list" where
  "id_numbers [] = Inr []"
| "id_numbers (pid # pids) =
     (case py_int (drop 1 pid) of
        Inl e \<Rightarrow> Inl e
      | Inr n \<Rightarrow> (case id_numbers pids of Inl e \<Rightarrow> Inl e | Inr ns \<Rightarrow> Inr (n # ns)))"

definition generate_patient_id :: "collection \<Rightarrow> error + string" where
  "generate_patient_id data =
     (if data = [] then Inr ''P001''
      else (case id_numbers (map fst data) of
              Inl e \<Rightarrow> Inl e
            | Inr ns \<Rightarrow>
                (case py_max ns of
                   Inl e \<Rightarrow> Inl e
                 | Inr max_id \<Rightarrow> Inr (CHR ''P'' # zfill 3 (py_str (max_id + 1))))))"

section \<open>Endpoints\<close>

text \<open>
  Every request handler reads the file, answers with its response or with the exception
  that ends the request, and leaves the file behind: the second component is the file
  after the request. A handler that raises before \<^verbatim>\<open>save_data\<close> leaves the file
  as it found it.
\<close>

text \<open>\<^verbatim>\<open>GET /patients/{patient_id}\<close>: the identifier and the stored record.\<close>

definition get_patient :: "string \<Rightarrow> json_file \<Rightarrow> (error + string \<times> patient_data) \<times> json_file" where
  "get_patient pid f =
     (case load_data f of
        Inl e \<Rightarrow> (Inl e, f)
      | Inr data \<Rightarrow>
          (case map_of data pid of
             None \<Rightarrow> (Inl (HTTPException 404 ''Patient not found''), f)
           | Some r \<Rightarrow> (Inr (pid, r), f)))"

text \<open>
  \<^verbatim>\<open>POST /patients\<close>: the response carries the message, the new identifier and the
  stored record.
\<close>

definition add_patient ::
  "Patient \<Rightarrow> json_file \<Rightarrow> (error + string \<times> string \<times> patient_data) \<times> json_file" where
  "add_patient patient f =
     (case load_data f of
        Inl e \<Rightarrow> (Inl e, f)
      | Inr data \<Rightarrow>
          (case generate_patient_id data of
             Inl e \<Rightarrow> (Inl e, f)
           | Inr pid \<Rightarrow>
               (case calculate_bmi (in_height patient) (in_weight patient) of
                  Inl e \<Rightarrow> (Inl e, f)
                | Inr b \<Rightarrow>
                    (let r = \<lparr>name = in_name patient, city = in_city patient,
                              age = in_age patient, gender = in_gender patient,
                              height = in_height patient, weight = in_weight patient,
                              bmi = b, verdict = get_bmi_verdict b\<rparr>
                     in (Inr (''Patient added successfully'', pid, r),
                         save_data (AList.update pid r data) f)))))"

text \<open>
  \<^verbatim>\<open>PUT /patients/{patient_id}\<close>. The loop over \<^verbatim>\<open>update_data.items()\<close> overwrites
  the fields the request sets; \<^verbatim>\<open>bmi\<close> and \<^verbatim>\<open>verdict\<close> are computed again when
  \<^verbatim>\<open>height\<close> or \<^verbatim>\<open>weight\<close> is among them.
\<close>

definition apply_update :: "PatientUpdate \<Rightarrow> patient_data \<Rightarrow> patient_data" where
  "apply_update u r =
     r\<lparr>name := (case upd_name u of None \<Rightarrow> name r | Some v \<Rightarrow> v),
       city := (case upd_city u of None \<Rightarrow> city r | Some v \<Rightarrow> v),
       age := (case upd_age u of None \<Rightarrow> age r | Some v \<Rightarrow> v),
       gender := (case upd_gender u of None \<Rightarrow> gender r | Some v \<Rightarrow> v),
       height := (case upd_height u of None \<Rightarrow> height r | Some v \<Rightarrow> v),
       weight := (case upd_weight u of None \<Rightarrow> weight r | Some v \<Rightarrow> v)\<rparr>"

definition update_patient ::
  "string \<Rightarrow> PatientUpdate \<Rightarrow> json_file \<Rightarrow> (error + string \<times> string \<times> patient_data) \<times> json_file" where
  "update_patient pid u f =
     (case load_data f of
        Inl e \<Rightarrow> (Inl e, f)
      | Inr data \<Rightarrow>
          (case map_of data pid of
             None \<Rightarrow> (Inl (HTTPException 404 ''Patient not found''), f)
           | Some old \<Rightarrow>
               (let r = apply_update u old in
                if upd_height u \<noteq> None \<or> upd_weight u \<noteq> None then
                  (case calculate_bmi (height r) (weight r) of
                     Inl e \<Rightarrow> (Inl e, f)
                   | Inr b \<Rightarrow>
                       (let r' = r\<lparr>bmi := b, verdict := get_bmi_verdict b\<rparr>
                        in (Inr (''Patient updated successfully'', pid, r'),
                            save_data (AList.update pid r' data) f)))
                else (Inr (''Patient updated successfully'', pid, r),
                      save_data (AList.update pid r data) f))))"

text \<open>\<^verbatim>\<open>DELETE /patients/{patient_id}\<close>: the response carries the record that was removed.\<close>

definition delete_patient ::
  "string \<Rightarrow> json_file \<Rightarrow> (error + string \<times> string \<times> patient_data) \<times> json_file" where
  "delete_patient pid f =
     (case load_data f of
        Inl e \<Rightarrow> (Inl e, f)
      | Inr data \<Rightarrow>
          (case map_of data pid of
             None \<Rightarrow> (Inl (HTTPException 404 ''Patient not found''), f)
           | Some deleted_patient \<Rightarrow>
               (Inr (''Patient deleted successfully'', pid, deleted_patient),
                save_data (AList.delete pid data) f)))"



text \<open>
  \<^verbatim>\<open>GET /patients/stats\<close>. Each distribution is the dict built by the loop
  \<^verbatim>\<open>stats[k] = stats.get(k, 0) + 1\<close>.
\<close>

record age_stats =
  average_age :: real
  min_age :: int
  max_age :: int

record bmi_stats =
  average_bmi :: real
  min_bmi :: real
  max_bmi :: real

record statistics =
  total_patients :: nat
  age_statistics :: age_stats
  bmi_statistics :: bmi_stats
  gender_distribution :: "(string \<times> nat) list"
  city_distribution :: "(string \<times> nat) list"
  bmi_verdict_distribution :: "(string \<times> nat) list"

datatype stats_response = NoStatistics string | Statistics statistics

definition distribution :: "string list \<Rightarrow> (string \<times> nat) list" where
  "distribution ks =
     foldl (\<lambda>stats k. AList.update k ((case map_of stats k of None \<Rightarrow> 0 | Some c \<Rightarrow> c) + 1) stats)
       [] ks"

definition age_statistics_of :: "int list \<Rightarrow> error + age_stats" where
  "age_statistics_of ages =
     (case py_truediv (of_int (sum_list ages)) (of_nat (length ages)) of
        Inl e \<Rightarrow> Inl e
      | Inr avg \<Rightarrow>
          (case py_min ages of
             Inl e \<Rightarrow> Inl e
           | Inr lo \<Rightarrow>
               (case py_max ages of
                  Inl e \<Rightarrow> Inl e
                | Inr hi \<Rightarrow> Inr \<lparr>average_age = py_round avg 1, min_age = lo, max_age = hi\<rparr>)))"

definition bmi_statistics_of :: "real list \<Rightarrow> error + bmi_stats" where
  "bmi_statistics_of bmis =
     (case py_truediv (sum_list bmis) (of_nat (length bmis)) of
        Inl e \<Rightarrow> Inl e
      | Inr avg \<Rightarrow>
          (case py_min bmis of
             Inl e \<Rightarrow> Inl e
           | Inr lo \<Rightarrow>
               (case py_max bmis of
                  Inl e \<Rightarrow> Inl e
                | Inr hi \<Rightarrow> Inr \<lparr>average_bmi = py_round avg 2, min_bmi = lo, max_bmi = hi\<rparr>)))"

definition get_patient_statistics :: "json_file \<Rightarrow> (error + stats_response) \<times> json_file" where
  "get_patient_statistics f =
     (case load_data f of
        Inl e \<Rightarrow> (Inl e, f)
      | Inr data \<Rightarrow>
          if data = [] then (Inr (NoStatistics ''No patients found for statistics''), f)
          else
            (let patients = map snd data in
             case age_statistics_of (map age patients) of
               Inl e \<Rightarrow> (Inl e, f)
             | Inr a \<Rightarrow>
                 (case bmi_statistics_of (map bmi patients) of
                    Inl e \<Rightarrow> (Inl e, f)
                  | Inr b \<Rightarrow>
                      (Inr (Statistics
                         \<lparr>total_patients = length data,
                          age_statistics = a,
                          bmi_statistics = b,
                          gender_distribution = distribution (map gender patients),
                          city_distribution = distribution (map city patients),
                          bmi_verdict_distribution = distribution (map verdict patients)\<rparr>),
                       f))))"

text \<open>
  The record the file holds under an identifier: \<^verbatim>\<open>data[patient_id]\<close> on the loaded
  collection, and \<open>None\<close> when the key is absent or the file cannot be read.
\<close>

definition stored :: "json_file \<Rightarrow> string \<Rightarrow> patient_data option" where
  "stored f pid = (case load_data f of Inl e \<Rightarrow> None | Inr data \<Rightarrow> map_of data pid)"

section \<open>Identifiers\<close>

text \<open>
  An identifier of the form the service generates: the letter P and then one or more
  digits. Its number is the numeral after the first character, which is what
  \<^verbatim>\<open>int(pid[1:])\<close> reads.
\<close>

definition is_patient_id :: "string \<Rightarrow> bool" where
  "is_patient_id pid =
     (case pid of [] \<Rightarrow> False | c # ds \<Rightarrow> c = CHR ''P'' \<and> ds \<noteq> [] \<and> list_all is_digit ds)"

definition id_number :: "string \<Rightarrow> nat" where
  "id_number pid = digits_val (drop 1 pid)"

text \<open>
  The f-string of \<^verbatim>\<open>generate_patient_id\<close>, and the identifiers that a list of create
  requests is answered with, one after the other on the same file.
\<close>

definition format_patient_id :: "int \<Rightarrow> string" where
  "format_patient_id n = CHR ''P'' # zfill 3 (py_str n)"

fun created_ids :: "Patient list \<Rightarrow> json_file \<Rightarrow> (error + string) list" where
  "created_ids [] f = []"
| "created_ids (p # ps) f =
     (case fst (add_patient p f) of
        Inl e \<Rightarrow> Inl e
      | Inr (message, pid, r) \<Rightarrow> Inr pid) # created_ids ps (snd (add_patient p f))"

section \<open>Sequences of requests\<close>





section \<open>Example data\<close>

definition ann :: patient_data where
  "ann = \<lparr>name = ''Ann'', city = ''Boston'', age = 20, gender = ''female'',
           height = 2, weight = 120, bmi = 30, verdict = ''Obese''\<rparr>"

definition bob :: patient_data where
  "bob = \<lparr>name = ''Bob'', city = ''Austin'', age = 40, gender = ''male'',
           height = 2, weight = 80, bmi = 20, verdict = ''Normal''\<rparr>"

definition weight_only :: PatientUpdate where
  "weight_only = \<lparr>upd_name = None, upd_city = None, upd_age = None, upd_gender = None,
                   upd_height = None, upd_weight = Some 80\<rparr>"

definition carl :: Patient where
  "carl = \<lparr>in_name = ''Carl'', in_city = ''Denver'', in_age = 50, in_gender = ''male'',
            in_height = 2, in_weight = 100, in_bmi = None, in_verdict = None\<rparr>"

definition clinic :: collection where
  "clinic = [(''P001'', ann), (''P002'', bob), (''P005'', ann)]"

definition full_clinic :: collection where
  "full_clinic = [(''P001'', ann), (''P999'', bob)]"

section \<open>Basic facts about the handlers\<close>

lemma calculate_bmi_nonzero: "h \<noteq> 0 \<Longrightarrow> calculate_bmi h w = Inr (py_round (w / h\<^sup>2) 2)"
  by (simp add: calculate_bmi_def py_truediv_def)


lemma stored_Content: "stored (Content data) pid = map_of data pid"
  by (simp add: stored_def load_data_def)

lemma map_of_update_same: "map_of (AList.update k v al) k = Some v"
  by (simp add: update_conv')

lemma add_patient_result:
  assumes "load_data f = Inr data" and "generate_patient_id data = Inr pid"
    and "in_height p \<noteq> 0"
  shows "add_patient p f =
    (Inr (''Patient added successfully'', pid,
        \<lparr>name = in_name p, city = in_city p, age = in_age p, gender = in_gender p,
         height = in_height p, weight = in_weight p,
         bmi = py_round (in_weight p / (in_height p)\<^sup>2) 2,
         verdict = get_bmi_verdict (py_round (in_weight p / (in_height p)\<^sup>2) 2)\<rparr>),
     Content (AList.update pid
        \<lparr>name = in_name p, city = in_city p, age = in_age p, gender = in_gender p,
         height = in_height p, weight = in_weight p,
         bmi = py_round (in_weight p / (in_height p)\<^sup>2) 2,
         verdict = get_bmi_verdict (py_round (in_weight p / (in_height p)\<^sup>2) 2)\<rparr> data))"
  using assms by (simp add: add_patient_def calculate_bmi_nonzero save_data_def Let_def)





lemma failed_get_keeps_file: "snd (get_patient pid f) = f"
  by (simp add: get_patient_def split: sum.splits option.splits)



lemma failed_delete_keeps_file:
  "fst (delete_patient pid f) = Inl e \<Longrightarrow> snd (delete_patient pid f) = f"
  by (auto simp add: delete_patient_def split: sum.splits option.splits)

lemma get_patient_absent:
  "load_data f = Inr data \<Longrightarrow> map_of data pid = None \<Longrightarrow>
   get_patient pid f = (Inl (HTTPException 404 ''Patient not found''), f)"
  by (simp add: get_patient_def)

lemma update_patient_absent:
  "load_data f = Inr data \<Longrightarrow> map_of data pid = None \<Longrightarrow>
   update_patient pid u f = (Inl (HTTPException 404 ''Patient not found''), f)"
  by (simp add: update_patient_def)

lemma delete_patient_absent:
  "load_data f = Inr data \<Longrightarrow> map_of data pid = None \<Longrightarrow>
   delete_patient pid f = (Inl (HTTPException 404 ''Patient not found''), f)"
  by (simp add: delete_patient_def)

lemma get_patient_present:
  "load_data f = Inr data \<Longrightarrow> map_of data pid = Some r \<Longrightarrow>
   get_patient pid f = (Inr (pid, r), f)"
  by (simp add: get_patient_def)

lemma delete_patient_present:
  "load_data f = Inr data \<Longrightarrow> map_of data pid = Some r \<Longrightarrow>
   delete_patient pid f =
     (Inr (''Patient deleted successfully'', pid, r), Content (AList.delete pid data))"
  by (simp add: delete_patient_def save_data_def)

lemma update_patient_present_not_404:
  assumes "load_data f = Inr data" and "map_of data pid = Some old"
  shows "fst (update_patient pid u f) \<noteq> Inl (HTTPException 404 ''Patient not found'')"
  using assms
  by (auto simp add: update_patient_def Let_def calculate_bmi_def py_truediv_def
      split: if_splits)

lemma py_min_nonempty: "xs \<noteq> [] \<Longrightarrow> py_min xs = Inr (Min (set xs))"
  by (cases xs) (simp_all add: Min.set_eq_fold [symmetric] del: set_simps)

lemma py_max_nonempty: "xs \<noteq> [] \<Longrightarrow> py_max xs = Inr (Max (set xs))"
  by (cases xs) (simp_all add: Max.set_eq_fold [symmetric] del: set_simps)

lemma py_truediv_length: "xs \<noteq> [] \<Longrightarrow> py_truediv a (of_nat (length xs)) = Inr (a / of_nat (length xs))"
  by (simp add: py_truediv_def)

lemma age_statistics_of_nonempty:
  "ages \<noteq> [] \<Longrightarrow> age_statistics_of ages =
     Inr \<lparr>average_age = py_round (of_int (sum_list ages) / of_nat (length ages)) 1,
          min_age = Min (set ages), max_age = Max (set ages)\<rparr>"
  by (simp add: age_statistics_of_def py_truediv_length py_min_nonempty py_max_nonempty)

lemma bmi_statistics_of_nonempty:
  "bmis \<noteq> [] \<Longrightarrow> bmi_statistics_of bmis =
     Inr \<lparr>average_bmi = py_round (sum_list bmis / of_nat (length bmis)) 2,
          min_bmi = Min (set bmis), max_bmi = Max (set bmis)\<rparr>"
  by (simp add: bmi_statistics_of_def py_truediv_length py_min_nonempty py_max_nonempty)





lemma get_patient_statistics_nonempty:
  assumes "load_data f = Inr data" and "data \<noteq> []"
  shows "get_patient_statistics f =
    (Inr (Statistics
       \<lparr>total_patients = length data,
        age_statistics =
          \<lparr>average_age = py_round (of_int (sum_list (map (age \<circ> snd) data)) / of_nat (length data)) 1,
           min_age = Min ((age \<circ> snd) ` set data), max_age = Max ((age \<circ> snd) ` set data)\<rparr>,
        bmi_statistics =
          \<lparr>average_bmi = py_round (sum_list (map (bmi \<circ> snd) data) / of_nat (length data)) 2,
           min_bmi = Min ((bmi \<circ> snd) ` set data), max_bmi = Max ((bmi \<circ> snd) ` set data)\<rparr>,
        gender_distribution = distribution (map (gender \<circ> snd) data),
        city_distribution = distribution (map (city \<circ> snd) data),
        bmi_verdict_distribution = distribution (map (verdict \<circ> snd) data)\<rparr>), f)"
  using assms
  by (simp add: get_patient_statistics_def age_statistics_of_nonempty
      bmi_statistics_of_nonempty image_comp)

lemma get_patient_statistics_empty:
  "load_data f = Inr [] \<Longrightarrow>
   get_patient_statistics f = (Inr (NoStatistics ''No patients found for statistics''), f)"
  by (simp add: get_patient_statistics_def)
















lemma is_digit_not_sign: "is_digit c \<Longrightarrow> c \<noteq> CHR ''-'' \<and> c \<noteq> CHR ''+''"
  by (auto simp add: is_digit_def)

lemma py_int_of_digits:
  assumes "ds \<noteq> []" and "list_all is_digit ds"
  shows "py_int ds = Inr (int (digits_val ds))"
proof -
  from assms obtain c r where ds: "ds = c # r" and c: "is_digit c"
    by (cases ds) auto
  from is_digit_not_sign [OF c] assms show ?thesis
    unfolding ds by (simp add: py_int_def py_int_digits_def)
qed

lemma id_numbers_of_patient_ids:
  "list_all is_patient_id pids \<Longrightarrow> id_numbers pids = Inr (map (int \<circ> id_number) pids)"
proof (induction pids)
  case Nil
  show ?case by simp
next
  case (Cons pid pids)
  from Cons.prems have "is_patient_id pid" by simp
  then have "py_int (drop 1 pid) = Inr (int (id_number pid))"
    by (cases pid) (simp_all add: is_patient_id_def id_number_def py_int_of_digits)
  with Cons show ?case by simp
qed

lemma digit_val_digit_char: "d < 10 \<Longrightarrow> digit_val (digit_char d) = d"
  by (simp add: digit_val_def digit_char_def)

lemma is_digit_digit_char: "d < 10 \<Longrightarrow> is_digit (digit_char d)"
  by (simp add: is_digit_def digit_char_def)

lemma digits_val_snoc: "digits_val (s @ [c]) = 10 * digits_val s + digit_val c"
  by (simp add: digits_val_def)

lemma digits_val_single: "digits_val [c] = digit_val c"
  by (simp add: digits_val_def)

lemma str_nat_nonempty: "str_nat n \<noteq> []"
  by (subst str_nat.simps) simp

lemma str_nat_digits: "list_all is_digit (str_nat n)"
proof (induction n rule: str_nat.induct)
  case (1 n)
  show ?case
  proof (cases "n < 10")
    case True
    then show ?thesis
      by (subst str_nat.simps) (simp add: is_digit_digit_char)
  next
    case False
    with "1" show ?thesis
      by (subst str_nat.simps) (simp add: is_digit_digit_char)
  qed
qed

lemma digits_val_str_nat: "digits_val (str_nat n) = n"
proof (induction n rule: str_nat.induct)
  case (1 n)
  show ?case
  proof (cases "n < 10")
    case True
    then show ?thesis
      by (subst str_nat.simps) (simp add: digits_val_single digit_val_digit_char)
  next
    case False
    with "1" show ?thesis
      by (subst str_nat.simps) (simp add: digits_val_snoc digit_val_digit_char)
  qed
qed

lemma length_str_nat_small: "n < 10 \<Longrightarrow> length (str_nat n) = 1"
  by (subst str_nat.simps) simp

lemma length_str_nat_step: "10 \<le> n \<Longrightarrow> length (str_nat n) = Suc (length (str_nat (n div 10)))"
  by (subst str_nat.simps) simp

lemma length_str_nat_le3: "n < 1000 \<Longrightarrow> length (str_nat n) \<le> 3"
proof -
  assume n: "n < 1000"
  show ?thesis
  proof (cases "n < 10")
    case True
    then show ?thesis by (simp add: length_str_nat_small)
  next
    case False
    show ?thesis
    proof (cases "n div 10 < 10")
      case True
      with False show ?thesis
        by (simp add: length_str_nat_step length_str_nat_small)
    next
      case d: False
      from n have "n div 10 div 10 < 10" by simp
      with False d show ?thesis
        by (simp add: length_str_nat_step length_str_nat_small)
    qed
  qed
qed

lemma length_str_nat_ge4: "1000 \<le> n \<Longrightarrow> 4 \<le> length (str_nat n)"
proof -
  assume n: "1000 \<le> n"
  then have a: "10 \<le> n" "10 \<le> n div 10" "10 \<le> n div 10 div 10"
    by simp_all
  have "1 \<le> length (str_nat (n div 10 div 10 div 10))"
    using str_nat_nonempty [of "n div 10 div 10 div 10"] by (simp add: Suc_le_eq)
  with a show ?thesis
    by (simp add: length_str_nat_step)
qed

lemma digit_val_zero: "digit_val CHR ''0'' = 0"
  by (simp add: digit_val_def)

lemma digits_val_zeros: "digits_val (replicate k CHR ''0'' @ s) = digits_val s"
proof -
  have "foldl (\<lambda>a c. 10 * a + digit_val c) 0 (replicate k CHR ''0'') = 0"
    by (induction k) (simp_all add: digit_val_zero)
  then show ?thesis
    by (simp add: digits_val_def)
qed

lemma zfill_digits:
  assumes "s \<noteq> []" and "list_all is_digit s"
  shows "zfill 3 s = replicate (3 - length s) CHR ''0'' @ s"
proof -
  from assms obtain c r where s: "s = c # r" and c: "is_digit c"
    by (cases s) auto
  from is_digit_not_sign [OF c] show ?thesis
    unfolding s by (simp add: zfill_def)
qed

lemma zfill_str_nat: "zfill 3 (str_nat n) = replicate (3 - length (str_nat n)) CHR ''0'' @ str_nat n"
  by (simp add: zfill_digits str_nat_nonempty str_nat_digits)

lemma is_digit_zero: "is_digit CHR ''0''"
  by (simp add: is_digit_def)

lemma zfill_str_nat_digits: "list_all is_digit (zfill 3 (str_nat n))"
  using str_nat_digits [of n] by (auto simp add: zfill_str_nat list_all_iff is_digit_zero)

lemma zfill_str_nat_val: "digits_val (zfill 3 (str_nat n)) = n"
  by (simp add: zfill_str_nat digits_val_zeros digits_val_str_nat)

lemma zfill_str_nat_nonempty: "zfill 3 (str_nat n) \<noteq> []"
  by (simp add: zfill_str_nat str_nat_nonempty)

lemma zfill_str_nat_length: "length (zfill 3 (str_nat n)) = max 3 (length (str_nat n))"
  by (simp add: zfill_str_nat)

lemma zfill_str_nat_large: "1000 \<le> n \<Longrightarrow> zfill 3 (str_nat n) = str_nat n"
  using length_str_nat_ge4 [of n] by (simp add: zfill_def)

lemma py_str_nat: "py_str (int n) = str_nat n"
  by (simp add: py_str_def)

lemma new_id_is_patient_id: "is_patient_id (CHR ''P'' # zfill 3 (str_nat n))"
  by (simp add: is_patient_id_def zfill_str_nat_nonempty zfill_str_nat_digits)

lemma new_id_number: "id_number (CHR ''P'' # zfill 3 (str_nat n)) = n"
  by (simp add: id_number_def zfill_str_nat_val)

lemma format_patient_id_nat: "format_patient_id (int n) = CHR ''P'' # zfill 3 (str_nat n)"
  by (simp add: format_patient_id_def py_str_nat)

lemma format_is_patient_id: "is_patient_id (format_patient_id (int n))"
  by (simp add: format_patient_id_nat new_id_is_patient_id)

lemma format_id_number: "id_number (format_patient_id (int n)) = n"
  by (simp add: format_patient_id_nat new_id_number)

lemma Max_int_image:
  assumes "finite A" and "A \<noteq> {}"
  shows "Max (int ` A) = int (Max A)"
  using assms by (simp add: mono_Max_commute [where f = int, symmetric] mono_def)

lemma generate_patient_id_empty: "generate_patient_id [] = Inr ''P001''"
  by (simp add: generate_patient_id_def)

lemma generate_patient_id_nonempty:
  assumes "data \<noteq> []" and "list_all is_patient_id (map fst data)"
  shows "generate_patient_id data
    = Inr (format_patient_id (int (Max (id_number ` fst ` set data)) + 1))"
proof -
  have ids: "id_numbers (map fst data) = Inr (map (int \<circ> id_number) (map fst data))"
    using assms(2) by (rule id_numbers_of_patient_ids)
  have ne: "map (int \<circ> id_number) (map fst data) \<noteq> []"
    using assms(1) by simp
  have "set (map (int \<circ> id_number) (map fst data)) = int ` (id_number ` fst ` set data)"
    by (simp add: image_comp)
  moreover have "Max (int ` (id_number ` fst ` set data)) = int (Max (id_number ` fst ` set data))"
    using assms(1) by (intro Max_int_image) simp_all
  ultimately have "py_max (map (int \<circ> id_number) (map fst data))
      = Inr (int (Max (id_number ` fst ` set data)))"
    using py_max_nonempty [OF ne] by simp
  with ids assms(1) show ?thesis
    by (simp add: generate_patient_id_def format_patient_id_def)
qed

lemma next_id_fresh:
  "format_patient_id (int (Max (id_number ` fst ` set data)) + 1) \<notin> fst ` set data"
proof
  let ?m = "Max (id_number ` fst ` set data)"
  assume "format_patient_id (int ?m + 1) \<in> fst ` set data"
  then have "id_number (format_patient_id (int ?m + 1)) \<le> ?m"
    by (intro Max_ge) simp_all
  moreover have "int ?m + 1 = int (Suc ?m)" by simp
  ultimately show False
    by (simp only: format_id_number)
qed

lemma update_fresh: "k \<notin> fst ` set al \<Longrightarrow> AList.update k v al = al @ [(k, v)]"
  by (induction al) auto

lemma format_patient_id_one: "format_patient_id 1 = ''P001''"
  by code_simp

lemma format_patient_id_small:
  assumes "k < 10"
  shows "format_patient_id (int k) = ''P00'' @ [digit_char k]"
proof -
  from assms have "str_nat k = [digit_char k]"
    by (subst str_nat.simps) simp
  with zfill_str_nat [of k] have "zfill 3 (str_nat k) = ''00'' @ [digit_char k]"
    by (simp add: eval_nat_numeral)
  then show ?thesis
    by (simp add: format_patient_id_nat)
qed

lemma keys_of_sequence:
  assumes "map fst data = map (\<lambda>k. format_patient_id (int k)) [1..<Suc n]"
  shows "list_all is_patient_id (map fst data)"
    and "id_number ` fst ` set data = {1..<Suc n}"
proof -
  show "list_all is_patient_id (map fst data)"
    unfolding assms by (simp add: list_all_iff format_is_patient_id)
  have "id_number ` fst ` set data = id_number ` set (map fst data)"
    by simp
  also have "\<dots> = id_number ` set (map (\<lambda>k. format_patient_id (int k)) [1..<Suc n])"
    by (simp only: assms)
  also have "\<dots> = (\<lambda>k. id_number (format_patient_id (int k))) ` set [1..<Suc n]"
    by (simp only: set_map image_image)
  also have "\<dots> = {1..<Suc n}"
    by (simp add: format_id_number del: upt_Suc)
  finally show "id_number ` fst ` set data = {1..<Suc n}" .
qed

lemma add_patient_next:
  assumes l: "load_data f = Inr data"
    and keys: "map fst data = map (\<lambda>k. format_patient_id (int k)) [1..<Suc n]"
    and h: "in_height p \<noteq> 0"
  shows "\<exists>r. add_patient p f =
    (Inr (''Patient added successfully'', format_patient_id (int (Suc n)), r),
     Content (data @ [(format_patient_id (int (Suc n)), r)]))"
proof (cases n)
  case 0
  with keys have d: "data = []" by simp
  have g: "generate_patient_id data = Inr (format_patient_id (int (Suc n)))"
    using 0 d by (simp add: generate_patient_id_empty format_patient_id_one)
  show ?thesis
    unfolding add_patient_result [OF l g h] using d by simp
next
  case (Suc m)
  with keys have ne: "data \<noteq> []" by auto
  note k = keys_of_sequence [OF keys]
  have mx: "Max (id_number ` fst ` set data) = n"
    unfolding k(2) using Suc
    by (intro Max_eqI) auto
  have g: "generate_patient_id data = Inr (format_patient_id (int (Suc n)))"
    using generate_patient_id_nonempty [OF ne k(1)] mx by (simp add: add.commute)
  have "format_patient_id (int (Suc n)) \<notin> fst ` set data"
    using next_id_fresh [of data] mx by (simp add: add.commute)
  then show ?thesis
    unfolding add_patient_result [OF l g h] by (simp add: update_fresh)
qed

lemma created_ids_sequence:
  assumes "load_data f = Inr data"
    and "map fst data = map (\<lambda>k. format_patient_id (int k)) [1..<Suc n]"
    and "list_all (\<lambda>p. in_height p \<noteq> 0) ps"
  shows "created_ids ps f = map (\<lambda>k. Inr (format_patient_id (int k))) [Suc n..<Suc (n + length ps)]"
  using assms
proof (induction ps arbitrary: f data n)
  case Nil
  show ?case by simp
next
  case (Cons p ps)
  from Cons.prems(3) have h: "in_height p \<noteq> 0" and rest: "list_all (\<lambda>p. in_height p \<noteq> 0) ps"
    by simp_all
  from add_patient_next [OF Cons.prems(1,2) h] obtain r where
    a: "add_patient p f =
      (Inr (''Patient added successfully'', format_patient_id (int (Suc n)), r),
       Content (data @ [(format_patient_id (int (Suc n)), r)]))"
    by (rule exE)
  let ?data = "data @ [(format_patient_id (int (Suc n)), r)]"
  have l': "load_data (Content ?data) = Inr ?data"
    by (simp add: load_data_def)
  have k': "map fst ?data = map (\<lambda>k. format_patient_id (int k)) [1..<Suc (Suc n)]"
    using Cons.prems(2) by simp
  have "created_ids ps (Content ?data)
      = map (\<lambda>k. Inr (format_patient_id (int k))) [Suc (Suc n)..<Suc (Suc n + length ps)]"
    using Cons.IH [OF l' k' rest] .
  moreover have "[Suc n..<Suc (n + length (p # ps))]
      = Suc n # [Suc (Suc n)..<Suc (Suc n + length ps)]"
    by (simp add: upt_conv_Cons del: upt_Suc)
  ultimately show ?case
    unfolding created_ids.simps a by (simp del: upt_Suc)
qed

lemma generate_after_delete:
  assumes wf: "list_all is_patient_id (map fst data)"
    and pid: "pid \<in> fst ` set data"
    and less: "id_number pid < Max (id_number ` fst ` set data)"
  shows "generate_patient_id (AList.delete pid data)
      = Inr (format_patient_id (int (Max (id_number ` fst ` set data)) + 1))"
    and "format_patient_id (int (Max (id_number ` fst ` set data)) + 1) \<noteq> pid"
    and "format_patient_id (int (Max (id_number ` fst ` set data)) + 1)
      \<notin> fst ` set (AList.delete pid data)"
proof -
  let ?K = "fst ` set data" and ?K' = "fst ` set (AList.delete pid data)"
  have fin: "finite (id_number ` ?K)" and ne: "id_number ` ?K \<noteq> {}"
    using pid by auto
  have K': "?K' = ?K - {pid}"
    using delete_keys [of pid data] by (metis set_map set_removeAll)
  from Max_in [OF fin ne] have "\<exists>k\<in>?K. Max (id_number ` ?K) = id_number k"
    by (simp only: image_iff)
  then obtain k where k: "k \<in> ?K" "id_number k = Max (id_number ` ?K)"
    by (elim bexE) simp
  with less have "k \<noteq> pid" by auto
  with k have kin: "k \<in> ?K'" by (simp add: K')
  then have ne': "AList.delete pid data \<noteq> []" by auto
  have wf': "list_all is_patient_id (map fst (AList.delete pid data))"
    using wf K' by (auto simp add: list_all_iff)
  have "Max (id_number ` ?K') = Max (id_number ` ?K)"
  proof (rule Max_eqI)
    show "finite (id_number ` ?K')" by simp
    show "Max (id_number ` ?K) \<in> id_number ` ?K'"
      using kin k(2) by (metis imageI)
    fix y assume "y \<in> id_number ` ?K'"
    then have "y \<in> id_number ` ?K" by (auto simp add: K')
    then show "y \<le> Max (id_number ` ?K)" by (intro Max_ge) simp_all
  qed
  with generate_patient_id_nonempty [OF ne' wf']
  show "generate_patient_id (AList.delete pid data)
      = Inr (format_patient_id (int (Max (id_number ` ?K)) + 1))"
    by simp
  have n: "id_number (format_patient_id (int (Max (id_number ` ?K)) + 1))
      = Suc (Max (id_number ` ?K))"
    using format_id_number [of "Suc (Max (id_number ` ?K))"] by (simp add: add.commute)
  with less show "format_patient_id (int (Max (id_number ` ?K)) + 1) \<noteq> pid"
    by auto
  from next_id_fresh [of data]
  show "format_patient_id (int (Max (id_number ` ?K)) + 1) \<notin> ?K'"
    by (simp add: K')
qed

section \<open>Claims\<close>





text \<open>
  C3. On a collection whose keys are all the letter P followed by digits,
  \<^verbatim>\<open>generate_patient_id\<close> returns P followed by the greatest number among the keys plus
  one, padded with zeros to three digits, and create assigns that identifier; the empty
  collection gives P001. Creating records one after the other from the empty collection
  gives P001, P002 and so on. After a key that does not carry the greatest number is
  deleted, the next identifier is still the greatest number plus one: it is not the
  deleted key and not a key of the collection.
\<close>

theorem generated_id_is_max_plus_one_padded:
  "generate_patient_id [] = Inr ''P001'' \<and>
   (data \<noteq> [] \<and> list_all is_patient_id (map fst data) \<longrightarrow>
      (\<exists>ds. generate_patient_id data = Inr (CHR ''P'' # ds) \<and>
         ds = zfill 3 (py_str (int (Max (id_number ` fst ` set data)) + 1)) \<and>
         list_all is_digit ds \<and>
         digits_val ds = Max (id_number ` fst ` set data) + 1 \<and>
         3 \<le> length ds \<and>
         (Max (id_number ` fst ` set data) + 1 < 1000 \<longrightarrow> length ds = 3) \<and>
         CHR ''P'' # ds \<notin> fst ` set data)) \<and>
   (load_data f = Inr data \<and> generate_patient_id data = Inr pid \<and> in_height p \<noteq> 0 \<longrightarrow>
      (\<exists>r. fst (add_patient p f) = Inr (''Patient added successfully'', pid, r) \<and>
         stored (snd (add_patient p f)) pid = Some r)) \<and>
   (load_data g = Inr [] \<and> list_all (\<lambda>p. in_height p \<noteq> 0) ps \<longrightarrow>
      created_ids ps g
        = map (\<lambda>k. Inr (format_patient_id (int k))) [1..<Suc (length ps)]) \<and>
   (k < 10 \<longrightarrow> format_patient_id (int k) = ''P00'' @ [digit_char k]) \<and>
   (list_all is_patient_id (map fst data) \<and> pid' \<in> fst ` set data \<and>
    id_number pid' < Max (id_number ` fst ` set data) \<longrightarrow>
      generate_patient_id (AList.delete pid' data)
        = Inr (format_patient_id (int (Max (id_number ` fst ` set data)) + 1)) \<and>
      format_patient_id (int (Max (id_number ` fst ` set data)) + 1) \<noteq> pid' \<and>
      format_patient_id (int (Max (id_number ` fst ` set data)) + 1)
        \<notin> fst ` set (AList.delete pid' data))"
proof (intro conjI impI)
  let ?m = "Max (id_number ` fst ` set data)"
  show "generate_patient_id [] = Inr ''P001''"
    by (rule generate_patient_id_empty)
  show "\<exists>ds. generate_patient_id data = Inr (CHR ''P'' # ds) \<and>
         ds = zfill 3 (py_str (int ?m + 1)) \<and> list_all is_digit ds \<and>
         digits_val ds = ?m + 1 \<and> 3 \<le> length ds \<and>
         (?m + 1 < 1000 \<longrightarrow> length ds = 3) \<and> CHR ''P'' # ds \<notin> fst ` set data"
    if a: "data \<noteq> [] \<and> list_all is_patient_id (map fst data)"
  proof -
    have s: "int ?m + 1 = int (Suc ?m)" by simp
    have e: "py_str (int ?m + 1) = str_nat (Suc ?m)"
      unfolding s by (rule py_str_nat)
    have g: "generate_patient_id data = Inr (CHR ''P'' # zfill 3 (py_str (int ?m + 1)))"
      using generate_patient_id_nonempty [of data] a by (simp add: format_patient_id_def)
    have len: "length (zfill 3 (str_nat (Suc ?m))) = 3" if "?m + 1 < 1000"
      using length_str_nat_le3 [of "Suc ?m"] that by (simp add: zfill_str_nat_length)
    have fresh: "CHR ''P'' # zfill 3 (py_str (int ?m + 1)) \<notin> fst ` set data"
      using next_id_fresh [of data] by (simp add: format_patient_id_def)
    show ?thesis
      using g fresh len
      by (simp add: e zfill_str_nat_digits zfill_str_nat_val zfill_str_nat_length)
  qed
  show "\<exists>r. fst (add_patient p f) = Inr (''Patient added successfully'', pid, r) \<and>
         stored (snd (add_patient p f)) pid = Some r"
    if "load_data f = Inr data \<and> generate_patient_id data = Inr pid \<and> in_height p \<noteq> 0"
    using that by (simp add: add_patient_result stored_Content map_of_update_same)
  show "created_ids ps g = map (\<lambda>k. Inr (format_patient_id (int k))) [1..<Suc (length ps)]"
    if "load_data g = Inr [] \<and> list_all (\<lambda>p. in_height p \<noteq> 0) ps"
    using created_ids_sequence [of g "[]" 0 ps] that by simp
  show "format_patient_id (int k) = ''P00'' @ [digit_char k]" if "k < 10"
    using that by (rule format_patient_id_small)
  assume d: "list_all is_patient_id (map fst data) \<and> pid' \<in> fst ` set data \<and>
    id_number pid' < Max (id_number ` fst ` set data)"
  then have wf: "list_all is_patient_id (map fst data)" and pid: "pid' \<in> fst ` set data"
    and less: "id_number pid' < Max (id_number ` fst ` set data)"
    by simp_all
  note del = generate_after_delete [OF wf pid less]
  show "generate_patient_id (AList.delete pid' data) = Inr (format_patient_id (int ?m + 1))"
    by (rule del(1))
  show "format_patient_id (int ?m + 1) \<noteq> pid'"
    by (rule del(2))
  show "format_patient_id (int ?m + 1) \<notin> fst ` set (AList.delete pid' data)"
    by (rule del(3))
qed

theorem generated_id_is_max_plus_one_padded_witness:
  "clinic \<noteq> [] \<and> list_all is_patient_id (map fst clinic) \<and>
   generate_patient_id [] = Inr ''P001'' \<and>
   generate_patient_id clinic = Inr ''P006'' \<and>
   ''P006'' \<notin> fst ` set clinic \<and>
   (\<exists>r. fst (add_patient carl (Content clinic)) = Inr (''Patient added successfully'', ''P006'', r) \<and>
      stored (snd (add_patient carl (Content clinic))) ''P006'' = Some r) \<and>
   created_ids [carl, carl] Missing = [Inr ''P001'', Inr ''P002''] \<and>
   format_patient_id 3 = ''P003'' \<and>
   id_number ''P002'' < Max (id_number ` fst ` set clinic) \<and>
   generate_patient_id (AList.delete ''P002'' clinic) = Inr ''P006'' \<and>
   ''P006'' \<noteq> ''P002'' \<and>
   ''P006'' \<notin> fst ` set (AList.delete ''P002'' clinic)"
proof -
  have ne: "clinic \<noteq> []" by (simp add: clinic_def)
  have wf: "list_all is_patient_id (map fst clinic)" by code_simp
  have mx: "Max (id_number ` fst ` set clinic) = 5" by code_simp
  have mem: "''P002'' \<in> fst ` set clinic" by (simp add: clinic_def)
  have two: "id_number ''P002'' = 2" by code_simp
  have z: "zfill 3 (py_str 6) = ''006''" by code_simp
  have fmt: "format_patient_id 1 = ''P001''" "format_patient_id 2 = ''P002''"
    "format_patient_id 6 = ''P006''"
    by code_simp+
  have dc: "digit_char 3 = CHR ''3''" by code_simp
  have l: "load_data (Content clinic) = Inr clinic" "load_data Missing = Inr []"
    by (simp_all add: load_data_def)
  have h: "in_height carl \<noteq> 0" by (simp add: carl_def)
  have g: "generate_patient_id clinic = Inr ''P006''" by code_simp
  note t = generated_id_is_max_plus_one_padded [of clinic "Content clinic" "''P006''" carl Missing "[carl, carl]" 3 "''P002''",
      unfolded mx]
  show ?thesis
    using t ne wf mem two z fmt dc l h g
    by (simp add: mx)
qed



text \<open>
  C5. \<^verbatim>\<open>get_patient\<close>, \<^verbatim>\<open>update_patient\<close> and \<^verbatim>\<open>delete_patient\<close> answer 404
  exactly when the identifier is not a key of the loaded collection, and then the file is
  left as it was. Deleting a record and then reading it answers 404.
\<close>

theorem not_found_iff_absent_and_file_unchanged:
  assumes "load_data f = Inr data"
  shows
    "(fst (get_patient pid f) = Inl (HTTPException 404 ''Patient not found'')
        \<longleftrightarrow> map_of data pid = None) \<and>
     (fst (update_patient pid u f) = Inl (HTTPException 404 ''Patient not found'')
        \<longleftrightarrow> map_of data pid = None) \<and>
     (fst (delete_patient pid f) = Inl (HTTPException 404 ''Patient not found'')
        \<longleftrightarrow> map_of data pid = None) \<and>
     (map_of data pid = None \<longrightarrow>
        snd (get_patient pid f) = f \<and> snd (update_patient pid u f) = f \<and>
        snd (delete_patient pid f) = f) \<and>
     (map_of data pid \<noteq> None \<longrightarrow>
        fst (get_patient pid (snd (delete_patient pid f)))
          = Inl (HTTPException 404 ''Patient not found''))"
proof (cases "map_of data pid")
  case None
  with assms show ?thesis
    by (simp add: get_patient_absent update_patient_absent delete_patient_absent)
next
  case (Some r)
  have "map_of (AList.delete pid data) pid = None"
    by (simp add: delete_conv')
  then have "get_patient pid (Content (AList.delete pid data))
      = (Inl (HTTPException 404 ''Patient not found''), Content (AList.delete pid data))"
    by (simp add: get_patient_def load_data_def)
  with assms Some update_patient_present_not_404 [OF assms Some, of u] show ?thesis
    by (simp add: get_patient_present delete_patient_present)
qed

theorem not_found_iff_absent_and_file_unchanged_witness:
  "load_data (Content [(''P001'', ann)]) = Inr [(''P001'', ann)] \<and>
   fst (get_patient ''P002'' (Content [(''P001'', ann)]))
     = Inl (HTTPException 404 ''Patient not found'') \<and>
   fst (update_patient ''P002'' weight_only (Content [(''P001'', ann)]))
     = Inl (HTTPException 404 ''Patient not found'') \<and>
   fst (delete_patient ''P002'' (Content [(''P001'', ann)]))
     = Inl (HTTPException 404 ''Patient not found'') \<and>
   snd (update_patient ''P002'' weight_only (Content [(''P001'', ann)]))
     = Content [(''P001'', ann)] \<and>
   snd (delete_patient ''P002'' (Content [(''P001'', ann)])) = Content [(''P001'', ann)] \<and>
   fst (get_patient ''P001'' (Content [(''P001'', ann)]))
     \<noteq> Inl (HTTPException 404 ''Patient not found'') \<and>
   fst (get_patient ''P001'' (snd (delete_patient ''P001'' (Content [(''P001'', ann)]))))
     = Inl (HTTPException 404 ''Patient not found'')"
proof -
  have l: "load_data (Content [(''P001'', ann)]) = Inr [(''P001'', ann)]"
    by (simp add: load_data_def)
  show ?thesis
    using not_found_iff_absent_and_file_unchanged [OF l, of "''P002''" weight_only] not_found_iff_absent_and_file_unchanged [OF l, of "''P001''" weight_only] l
    by simp
qed



text \<open>
  C7. On the empty collection \<^verbatim>\<open>get_patient_statistics\<close> returns the message
  \<^verbatim>\<open>No patients found for statistics\<close> as its response. No file makes it raise
  \<^verbatim>\<open>ZeroDivisionError\<close>: whenever the file loads, the handler returns a response.
\<close>

theorem statistics_of_empty_collection:
  "(load_data f = Inr [] \<longrightarrow>
      get_patient_statistics f = (Inr (NoStatistics ''No patients found for statistics''), f)) \<and>
   get_patient_statistics Missing
     = (Inr (NoStatistics ''No patients found for statistics''), Missing) \<and>
   get_patient_statistics (Content [])
     = (Inr (NoStatistics ''No patients found for statistics''), Content []) \<and>
   fst (get_patient_statistics f) \<noteq> Inl ZeroDivisionError \<and>
   (load_data f = Inr data \<longrightarrow> (\<exists>resp. get_patient_statistics f = (Inr resp, f)))"
proof -
  have ok: "\<exists>resp. get_patient_statistics f = (Inr resp, f)" if "load_data f = Inr d" for d
    using that get_patient_statistics_empty [of f] get_patient_statistics_nonempty [of f d]
    by (cases "d = []") auto
  have "fst (get_patient_statistics f) \<noteq> Inl ZeroDivisionError"
  proof (cases "load_data f")
    case (Inl e)
    then show ?thesis
      by (cases f) (auto simp add: get_patient_statistics_def load_data_def)
  next
    case (Inr d)
    with ok [of d] show ?thesis by auto
  qed
  then show ?thesis
    using ok [of data]
    by (simp add: get_patient_statistics_empty load_data_def)
qed

theorem statistics_of_empty_collection_witness:
  "load_data Missing = Inr [] \<and>
   get_patient_statistics Missing
     = (Inr (NoStatistics ''No patients found for statistics''), Missing) \<and>
   load_data (Content [(''P001'', ann)]) = Inr [(''P001'', ann)] \<and>
   (\<exists>resp. get_patient_statistics (Content [(''P001'', ann)])
      = (Inr resp, Content [(''P001'', ann)])) \<and>
   fst (get_patient_statistics Malformed) \<noteq> Inl ZeroDivisionError"
proof -
  have l: "load_data Missing = Inr []" "load_data (Content [(''P001'', ann)]) = Inr [(''P001'', ann)]"
    by (simp_all add: load_data_def)
  show ?thesis
    using statistics_of_empty_collection [of Missing "[]"]
      statistics_of_empty_collection [of "Content [(''P001'', ann)]" "[(''P001'', ann)]"]
      statistics_of_empty_collection [of Malformed "[]"] l
    by simp
qed



text \<open>
  C9. Two create requests that agree on name, city, age, gender, height and weight have
  the same response and leave the same file, whatever \<^verbatim>\<open>bmi\<close> and \<^verbatim>\<open>verdict\<close> they
  carry; the stored \<^verbatim>\<open>bmi\<close> and \<^verbatim>\<open>verdict\<close> are computed from height and weight.
\<close>

theorem create_ignores_supplied_bmi_and_verdict:
  assumes "in_name p = in_name q" and "in_city p = in_city q" and "in_age p = in_age q"
    and "in_gender p = in_gender q" and "in_height p = in_height q"
    and "in_weight p = in_weight q"
  shows "add_patient p f = add_patient q f \<and>
    (fst (add_patient p f) = Inr (m, pid, r) \<longrightarrow>
       calculate_bmi (in_height p) (in_weight p) = Inr (bmi r) \<and>
       verdict r = get_bmi_verdict (bmi r) \<and>
       stored (snd (add_patient p f)) pid = Some r)"
proof -
  have same: "add_patient p f = add_patient q f"
    unfolding add_patient_def assms ..
  have derived: "calculate_bmi (in_height p) (in_weight p) = Inr (bmi r) \<and>
       verdict r = get_bmi_verdict (bmi r) \<and>
       stored (snd (add_patient p f)) pid = Some r"
    if "fst (add_patient p f) = Inr (m, pid, r)"
    using that
    by (auto simp add: add_patient_def Let_def save_data_def stored_Content map_of_update_same
        split: sum.splits)
  from same derived show ?thesis by blast
qed

theorem create_ignores_supplied_bmi_and_verdict_witness:
  "add_patient (carl\<lparr>in_bmi := Some 99, in_verdict := Some ''Fit''\<rparr>) Missing
     = add_patient carl Missing \<and>
   fst (add_patient (carl\<lparr>in_bmi := Some 99, in_verdict := Some ''Fit''\<rparr>) Missing)
     = Inr (''Patient added successfully'', ''P001'',
         \<lparr>name = ''Carl'', city = ''Denver'', age = 50, gender = ''male'',
          height = 2, weight = 100, bmi = 25, verdict = ''Overweight''\<rparr>) \<and>
   calculate_bmi 2 100 = Inr 25 \<and> get_bmi_verdict 25 = ''Overweight''"
proof -
  have r: "py_round 25 2 = 25"
    by (simp add: py_round_def)
  have e: "fst (add_patient (carl\<lparr>in_bmi := Some 99, in_verdict := Some ''Fit''\<rparr>) Missing)
     = Inr (''Patient added successfully'', ''P001'',
         \<lparr>name = ''Carl'', city = ''Denver'', age = 50, gender = ''male'',
          height = 2, weight = 100, bmi = 25, verdict = ''Overweight''\<rparr>)"
    by (simp add: add_patient_def carl_def load_data_def generate_patient_id_def
        calculate_bmi_nonzero r get_bmi_verdict_def Let_def)
  show ?thesis
    using create_ignores_supplied_bmi_and_verdict [of "carl\<lparr>in_bmi := Some 99, in_verdict := Some ''Fit''\<rparr>" carl Missing
        "''Patient added successfully''" "''P001''"
        "\<lparr>name = ''Carl'', city = ''Denver'', age = 50, gender = ''male'',
          height = 2, weight = 100, bmi = 25, verdict = ''Overweight''\<rparr>"] e
    by (simp add: carl_def)
qed

text \<open>
  C10. When the greatest number among the keys is at least 999, the next identifier is P
  followed by the whole decimal numeral of that number plus one, which has four digits or
  more: the padding to three digits cuts nothing off, and the identifier is not a key of
  the collection. After P999 comes P1000.
\<close>

theorem generated_id_widens_past_999:
  assumes "data \<noteq> []" and "list_all is_patient_id (map fst data)"
    and "999 \<le> Max (id_number ` fst ` set data)"
  shows "generate_patient_id data
      = Inr (CHR ''P'' # py_str (int (Max (id_number ` fst ` set data)) + 1)) \<and>
    list_all is_digit (py_str (int (Max (id_number ` fst ` set data)) + 1)) \<and>
    digits_val (py_str (int (Max (id_number ` fst ` set data)) + 1))
      = Max (id_number ` fst ` set data) + 1 \<and>
    4 \<le> length (py_str (int (Max (id_number ` fst ` set data)) + 1)) \<and>
    CHR ''P'' # py_str (int (Max (id_number ` fst ` set data)) + 1) \<notin> fst ` set data \<and>
    (load_data f = Inr data \<and> in_height p \<noteq> 0 \<longrightarrow>
       (\<exists>r. fst (add_patient p f)
          = Inr (''Patient added successfully'',
                 CHR ''P'' # py_str (int (Max (id_number ` fst ` set data)) + 1), r))) \<and>
    (map fst data = [''P999''] \<longrightarrow> generate_patient_id data = Inr ''P1000'')"
proof -
  let ?m = "Max (id_number ` fst ` set data)"
  have s: "int ?m + 1 = int (Suc ?m)" by simp
  have e: "py_str (int ?m + 1) = str_nat (Suc ?m)"
    unfolding s by (rule py_str_nat)
  have big: "1000 \<le> Suc ?m" using assms(3) by simp
  have z: "zfill 3 (str_nat (Suc ?m)) = str_nat (Suc ?m)"
    using big by (rule zfill_str_nat_large)
  have g: "generate_patient_id data = Inr (CHR ''P'' # py_str (int ?m + 1))"
    using generate_patient_id_nonempty [OF assms(1,2)] z
    by (simp add: format_patient_id_def e)
  have fresh: "CHR ''P'' # py_str (int ?m + 1) \<notin> fst ` set data"
    using next_id_fresh [of data] z by (simp add: format_patient_id_def e)
  have create: "\<exists>r. fst (add_patient p f)
          = Inr (''Patient added successfully'', CHR ''P'' # py_str (int ?m + 1), r)"
    if "load_data f = Inr data \<and> in_height p \<noteq> 0"
    using that g by (simp add: add_patient_result)
  have ex: "generate_patient_id data = Inr ''P1000''" if k: "map fst data = [''P999'']"
  proof -
    have "fst ` set data = set (map fst data)" by simp
    then have "fst ` set data = {''P999''}" unfolding k by simp
    moreover have "id_number ''P999'' = 999" by code_simp
    ultimately have "?m = 999" by simp
    moreover have "py_str 1000 = ''1000''" by code_simp
    ultimately show ?thesis using g by simp
  qed
  show ?thesis
    using g fresh create ex str_nat_digits [of "Suc ?m"] length_str_nat_ge4 [OF big]
    by (simp add: e digits_val_str_nat)
qed

theorem generated_id_widens_past_999_witness:
  "full_clinic \<noteq> [] \<and> list_all is_patient_id (map fst full_clinic) \<and>
   (999 :: nat) \<le> Max (id_number ` fst ` set full_clinic) \<and>
   generate_patient_id full_clinic = Inr ''P1000'' \<and>
   ''P1000'' \<notin> fst ` set full_clinic \<and>
   digits_val ''1000'' = 1000 \<and>
   (\<exists>r. fst (add_patient carl (Content full_clinic))
      = Inr (''Patient added successfully'', ''P1000'', r)) \<and>
   generate_patient_id [(''P999'', bob)] = Inr ''P1000''"
proof -
  have ne: "full_clinic \<noteq> []" "[(''P999'', bob)] \<noteq> []" by (simp_all add: full_clinic_def)
  have wf: "list_all is_patient_id (map fst full_clinic)"
    "list_all is_patient_id (map fst [(''P999'', bob)])" by code_simp+
  have mx: "Max (id_number ` fst ` set full_clinic) = 999"
    "Max (id_number ` fst ` set [(''P999'', bob)]) = 999" by code_simp+
  have s: "py_str 1000 = ''1000''" by code_simp
  have l: "load_data (Content full_clinic) = Inr full_clinic"
    by (simp add: load_data_def)
  have h: "in_height carl \<noteq> 0" by (simp add: carl_def)
  have b1: "(999 :: nat) \<le> Max (id_number ` fst ` set full_clinic)"
    by (simp add: mx)
  have b2: "(999 :: nat) \<le> Max (id_number ` fst ` set [(''P999'', bob)])"
    by (simp only: mx)
  note t1 = generated_id_widens_past_999 [OF ne(1) wf(1) b1, of "Content full_clinic" carl, unfolded mx]
  note t2 = generated_id_widens_past_999 [OF ne(2) wf(2) b2, of Missing carl, unfolded mx]
  show ?thesis
    using t1 t2 ne wf s l h
    by (simp add: mx)
qed

end
